theory Spec2Isabelle
  imports Main
begin

section \<open>JavaScript strings\<close>

text \<open>
  A JavaScript string is a sequence of UTF-16 code units. A code unit is modelled by its
  number; no arithmetic is done on code units, only comparison. \<open>js\<close> turns an ASCII
  literal of the source into its code units.
\<close>

type_synonym code_unit = nat
type_synonym jsstring = "code_unit list"

definition js :: "string \<Rightarrow> jsstring" where
  "js s = map of_char s"

text \<open>\<^verbatim>\<open>String.prototype.includes\<close>: does \<open>sub\<close> occur in \<open>s\<close> as a contiguous run.\<close>

fun includes_js :: "jsstring \<Rightarrow> jsstring \<Rightarrow> bool" where
  "includes_js [] sub = (sub = [])"
| "includes_js (c # s) sub = (take (length sub) (c # s) = sub \<or> includes_js s sub)"

section \<open>The two regular expressions of the registration form\<close>

text \<open>
  The character class escape \<^verbatim>\<open>\s\<close> of ECMAScript is WhiteSpace together with
  LineTerminator: TAB, VT, FF, ZWNBSP and the space separators, and LF, CR, LS, PS.
\<close>

definition WhiteSpace :: "code_unit \<Rightarrow> bool" where
  "WhiteSpace c \<longleftrightarrow>
     c = 0x0009 \<or> c = 0x000B \<or> c = 0x000C \<or> c = 0xFEFF \<or> c = 0x0020 \<or> c = 0x00A0
     \<or> c = 0x1680 \<or> (0x2000 \<le> c \<and> c \<le> 0x200A) \<or> c = 0x202F \<or> c = 0x205F
     \<or> c = 0x3000"

definition LineTerminator :: "code_unit \<Rightarrow> bool" where
  "LineTerminator c \<longleftrightarrow> c = 0x000A \<or> c = 0x000D \<or> c = 0x2028 \<or> c = 0x2029"

text \<open>
  Both patterns of \<^verbatim>\<open>handleSubmit\<close> are a sequence of quantified character sets between
  \<^verbatim>\<open>^\<close> and \<^verbatim>\<open>$\<close> (no \<^verbatim>\<open>m\<close> flag, so the anchors are the two ends of the input).
  \<open>NotSpaceNorAt\<close> is \<^verbatim>\<open>[^\s@]\<close>, \<open>Digit\<close> is \<^verbatim>\<open>[0-9]\<close>, \<open>Lit\<close> a single character;
  \<open>OneOrMore\<close> is \<^verbatim>\<open>+\<close> and \<open>Exactly n\<close> is \<^verbatim>\<open>{n}\<close>.
\<close>

datatype charset = NotSpaceNorAt | Digit | Lit code_unit

datatype quantifier = Once | OneOrMore | Exactly nat

type_synonym regex = "(charset \<times> quantifier) list"

fun in_charset :: "charset \<Rightarrow> code_unit \<Rightarrow> bool" where
  "in_charset NotSpaceNorAt c = (\<not> (WhiteSpace c \<or> LineTerminator c) \<and> c \<noteq> 0x40)"
| "in_charset Digit c = (0x30 \<le> c \<and> c \<le> 0x39)"
| "in_charset (Lit l) c = (c = l)"

text \<open>
  \<^verbatim>\<open>RegExp.prototype.test\<close> on an anchored pattern: a backtracking match of the whole
  input, the greedy alternative of \<^verbatim>\<open>+\<close> tried first.
\<close>

fun test :: "regex \<Rightarrow> jsstring \<Rightarrow> bool" where
  "test [] s = (s = [])"
| "test ((cs, Once) # r) [] = False"
| "test ((cs, Once) # r) (c # s) = (in_charset cs c \<and> test r s)"
| "test ((cs, OneOrMore) # r) [] = False"
| "test ((cs, OneOrMore) # r) (c # s) =
     (in_charset cs c \<and> (test ((cs, OneOrMore) # r) s \<or> test r s))"
| "test ((cs, Exactly 0) # r) s = test r s"
| "test ((cs, Exactly (Suc n)) # r) [] = False"
| "test ((cs, Exactly (Suc n)) # r) (c # s) =
     (in_charset cs c \<and> test ((cs, Exactly n) # r) s)"

text \<open>\<^verbatim>\<open>/^[^\s@]+@[^\s@]+\.[^\s@]+$/\<close>\<close>

definition emailRegex :: regex where
  "emailRegex = [(NotSpaceNorAt, OneOrMore), (Lit 0x40, Once),
                 (NotSpaceNorAt, OneOrMore), (Lit 0x2E, Once),
                 (NotSpaceNorAt, OneOrMore)]"

text \<open>\<^verbatim>\<open>/^[0-9]{10}$/\<close>\<close>

definition phoneRegex :: regex where
  "phoneRegex = [(Digit, Exactly 10)]"

section \<open>JSON values\<close>

text \<open>
  What \<^verbatim>\<open>response.json()\<close> can yield. An object lists its members in the order of the
  text; of two members with one key the later is the property. A number is given by what
  a handler can observe of it: whether it is zero, and the string \<^verbatim>\<open>ToString\<close> yields
  for it (\<^verbatim>\<open>12345\<close> for the number 12345).
\<close>

datatype json =
    JNull
  | JBool bool
  | JNumber bool jsstring
  | JString jsstring
  | JArray "json list"
  | JObject "(jsstring \<times> json) list"

text \<open>
  \<^verbatim>\<open>data.key\<close> for the keys the login handler reads, \<^verbatim>\<open>token\<close> and \<^verbatim>\<open>message\<close>, which no
  prototype defines: \<open>None\<close> is the \<^verbatim>\<open>TypeError\<close> of reading a property of \<^verbatim>\<open>null\<close>,
  \<open>Some None\<close> is \<^verbatim>\<open>undefined\<close>.
\<close>

fun Get :: "json \<Rightarrow> jsstring \<Rightarrow> json option option" where
  "Get JNull key = None"
| "Get (JObject members) key = Some (map_of (rev members) key)"
| "Get v key = Some None"

text \<open>\<^verbatim>\<open>ToBoolean\<close>: the test of \<^verbatim>\<open>if (v)\<close> and of \<^verbatim>\<open>v || d\<close>.\<close>

fun ToBoolean :: "json option \<Rightarrow> bool" where
  "ToBoolean None = False"
| "ToBoolean (Some JNull) = False"
| "ToBoolean (Some (JBool b)) = b"
| "ToBoolean (Some (JNumber zero shown)) = (\<not> zero)"
| "ToBoolean (Some (JString s)) = (s \<noteq> [])"
| "ToBoolean (Some (JArray xs)) = True"
| "ToBoolean (Some (JObject members)) = True"

text \<open>\<^verbatim>\<open>Array.prototype.join\<close> on the strings of the elements, \<open>None\<close> when one of them threw.\<close>

fun join :: "jsstring option list \<Rightarrow> jsstring option" where
  "join [] = Some []"
| "join [x] = x"
| "join (x # y # ys) =
     (case x of
        None \<Rightarrow> None
      | Some a \<Rightarrow> (case join (y # ys) of None \<Rightarrow> None | Some b \<Rightarrow> Some (a @ js '','' @ b)))"

text \<open>
  \<^verbatim>\<open>ToString\<close>, the conversion \<^verbatim>\<open>localStorage.setItem\<close> applies to its value; \<open>None\<close> is
  a \<^verbatim>\<open>TypeError\<close>. An array is the join of its elements, \<^verbatim>\<open>null\<close> elements empty. An
  object is \<^verbatim>\<open>[object Object]\<close>, unless it has a member \<^verbatim>\<open>toString\<close> of its own: that
  member is not a function, and \<^verbatim>\<open>valueOf\<close> yields no primitive, so the conversion
  throws.
\<close>

fun ToString :: "json \<Rightarrow> jsstring option" where
  "ToString JNull = Some (js ''null'')"
| "ToString (JBool b) = Some (if b then js ''true'' else js ''false'')"
| "ToString (JNumber zero shown) = Some shown"
| "ToString (JString s) = Some s"
| "ToString (JArray xs) =
     join (map (\<lambda>x. case x of JNull \<Rightarrow> Some [] | _ \<Rightarrow> ToString x) xs)"
| "ToString (JObject members) =
     (if map_of (rev members) (js ''toString'') = None then Some (js ''[object Object]'')
      else None)"

section \<open>Effects of the event handlers\<close>

text \<open>
  A handler is a function from the component state and the answers of the outside world
  to the new state and the list of effects it performs, in program order.
\<close>

record File =
  file_name :: jsstring
  file_size :: nat
  file_type :: jsstring

datatype part = Text jsstring jsstring | Binary jsstring File

datatype request =
    RegisterPost "part list"
  | LoginPost
  | VerifyGet jsstring

datatype effect =
    SetIsLoading bool
  | ToastError jsstring
  | ToastSuccess jsstring
  | ConsoleError jsstring
  | Fetch request
  | Navigate jsstring
  | ReadAsDataURL File
  | SetError json
  | ToastErrorValue json

text \<open>
  What a \<^verbatim>\<open>fetch\<close> promise settles to. \<open>NotJson e\<close> is a body on which
  \<^verbatim>\<open>response.json()\<close> rejects with an error of message \<open>e\<close>; \<open>Json\<close> is a JSON
  object with its \<^verbatim>\<open>message\<close> and \<^verbatim>\<open>token\<close> properties, where they are strings.
  \<open>Rejected e\<close> is a transport failure with message \<open>e\<close>.
\<close>

datatype body = NotJson jsstring | Json (message: "jsstring option") (token: "jsstring option")

datatype fetch_outcome = Resolved nat body | Rejected jsstring

definition ok :: "nat \<Rightarrow> bool" where
  "ok status \<longleftrightarrow> 200 \<le> status \<and> status \<le> 299"

section \<open>RegistrationForm.tsx\<close>

datatype plan_id = plan_1month | plan_2month | plan_3month | plan_6month | plan_yearly

fun plan_string :: "plan_id \<Rightarrow> jsstring" where
  "plan_string plan_1month = js ''1month''"
| "plan_string plan_2month = js ''2month''"
| "plan_string plan_3month = js ''3month''"
| "plan_string plan_6month = js ''6month''"
| "plan_string plan_yearly = js ''yearly''"

datatype payment_method = cash | online

fun payment_string :: "payment_method \<Rightarrow> jsstring" where
  "payment_string cash = js ''cash''"
| "payment_string online = js ''online''"

record FormData =
  name :: jsstring
  email :: jsstring
  phone :: jsstring
  dob :: jsstring
  photo :: "File option"
  plan :: plan_id
  startDate :: jsstring
  endDate :: jsstring
  paymentMethod :: payment_method

record PlanOption =
  id_opt :: plan_id
  name_opt :: jsstring
  price :: nat
  months :: nat

definition plans :: "PlanOption list" where
  "plans =
    [\<lparr>id_opt = plan_1month, name_opt = js ''1 Month'', price = 1500, months = 1\<rparr>,
     \<lparr>id_opt = plan_2month, name_opt = js ''2 Months'', price = 2500, months = 2\<rparr>,
     \<lparr>id_opt = plan_3month, name_opt = js ''3 Months'', price = 3500, months = 3\<rparr>,
     \<lparr>id_opt = plan_6month, name_opt = js ''6 Months'', price = 5000, months = 6\<rparr>,
     \<lparr>id_opt = plan_yearly, name_opt = js ''1 Year'', price = 8000, months = 12\<rparr>]"

record form_state =
  formData :: FormData
  photoPreview :: jsstring
  selectedPlan :: plan_id
  isLoading :: bool

subsection \<open>handlePhotoChange\<close>

text \<open>
  The argument is \<^verbatim>\<open>e.target.files?.[0]\<close>. The file reader is started by the effect
  \<open>ReadAsDataURL\<close>; its \<^verbatim>\<open>onloadend\<close> callback runs later, as an event of its own.
\<close>

fun handlePhotoChange :: "form_state \<Rightarrow> File option \<Rightarrow> form_state \<times> effect list" where
  "handlePhotoChange st None = (st, [])"
| "handlePhotoChange st (Some file) =
     (if file_size file > 1 * 1024 * 1024
      then (st, [ToastError (js ''Photo size should be less than 1MB'')])
      else (st\<lparr>formData := (formData st)\<lparr>photo := Some file\<rparr>\<rparr>, [ReadAsDataURL file]))"

definition onloadend :: "form_state \<Rightarrow> jsstring \<Rightarrow> form_state" where
  "onloadend st result = st\<lparr>photoPreview := result\<rparr>"

subsection \<open>handleSubmit\<close>

text \<open>The values a property of \<^verbatim>\<open>formData\<close> holds, and \<^verbatim>\<open>String(value)\<close>.\<close>

datatype js_value = VString jsstring | VFile File | VNull

fun String_js :: "js_value \<Rightarrow> jsstring" where
  "String_js (VString s) = s"
| "String_js (VFile f) = js ''[object File]''"
| "String_js VNull = js ''null''"

text \<open>The own properties of \<^verbatim>\<open>formData\<close>, in the order \<^verbatim>\<open>Object.keys\<close> lists them.\<close>

definition entries :: "FormData \<Rightarrow> (jsstring \<times> js_value) list" where
  "entries fd =
    [(js ''name'', VString (name fd)),
     (js ''email'', VString (email fd)),
     (js ''phone'', VString (phone fd)),
     (js ''dob'', VString (dob fd)),
     (js ''photo'', (case photo fd of None \<Rightarrow> VNull | Some f \<Rightarrow> VFile f)),
     (js ''plan'', VString (plan_string (plan fd))),
     (js ''startDate'', VString (startDate fd)),
     (js ''endDate'', VString (endDate fd)),
     (js ''paymentMethod'', VString (payment_string (paymentMethod fd)))]"

text \<open>The body of the \<^verbatim>\<open>forEach\<close>: one \<^verbatim>\<open>append\<close> per key.\<close>

fun append_key :: "jsstring \<times> js_value \<Rightarrow> part" where
  "append_key (key, VFile f) =
     (if key = js ''photo'' then Binary (js ''photo'') f else Text key (String_js (VFile f)))"
| "append_key (key, v) = Text key (String_js v)"

definition formDataToSend :: "FormData \<Rightarrow> part list" where
  "formDataToSend fd = map append_key (entries fd)"

text \<open>
  The \<^verbatim>\<open>try\<close> block up to the request: \<open>Inl\<close> is the message of the thrown
  \<^verbatim>\<open>Error\<close>.
\<close>

definition validate :: "FormData \<Rightarrow> jsstring + unit" where
  "validate fd =
     (if \<not> test emailRegex (email fd) then Inl (js ''Please enter a valid email address'')
      else if \<not> test phoneRegex (phone fd)
      then Inl (js ''Please enter a valid 10-digit phone number'')
      else Inr ())"

text \<open>
  The message of the \<^verbatim>\<open>TypeError\<close> raised by \<^verbatim>\<open>errorData.message.includes\<close> when the
  body has no \<^verbatim>\<open>message\<close> (the wording of V8).
\<close>

definition TypeError_message :: jsstring where
  "TypeError_message =
     js ''Cannot read properties of undefined (reading '' @ [0x27] @ js ''includes''
       @ [0x27] @ js '')''"

text \<open>\<^verbatim>\<open>throw new Error(errorData.message || 'Registration failed. Please try again.')\<close>\<close>

fun message_or_default :: "jsstring option \<Rightarrow> jsstring" where
  "message_or_default None = js ''Registration failed. Please try again.''"
| "message_or_default (Some m) =
     (if m = [] then js ''Registration failed. Please try again.'' else m)"

text \<open>The \<^verbatim>\<open>try\<close> block after the request has resolved with a response.\<close>

fun after_response :: "nat \<Rightarrow> body \<Rightarrow> jsstring + unit" where
  "after_response status (NotJson e) = Inl e"
| "after_response status (Json m t) =
     (if \<not> ok status then
        (if status = 400 then
           (case m of
              None \<Rightarrow> Inl TypeError_message
            | Some msg \<Rightarrow>
                if includes_js msg (js ''email'') then
                  Inl (js ''This email is already registered. Please use a different email or try logging in.'')
                else if includes_js msg (js ''phone'') then
                  Inl (js ''This phone number is already registered. Please use a different phone number.'')
                else Inl (message_or_default m))
         else Inl (message_or_default m))
      else Inr ())"

text \<open>The \<^verbatim>\<open>catch\<close> block: what is logged and what the user is shown.\<close>

definition catch_block :: "jsstring \<Rightarrow> effect list" where
  "catch_block msg =
     [ConsoleError msg,
      (if includes_js msg (js ''email'') then ToastError msg
       else if includes_js msg (js ''phone'') then ToastError msg
       else ToastError (js ''Registration failed. Please check your information and try again.''))]"

definition handleSubmit :: "FormData \<Rightarrow> fetch_outcome \<Rightarrow> effect list" where
  "handleSubmit fd net =
     [SetIsLoading True] @
     (case validate fd of
        Inl msg \<Rightarrow> catch_block msg
      | Inr _ \<Rightarrow>
          Fetch (RegisterPost (formDataToSend fd)) #
          (case net of
             Rejected e \<Rightarrow> catch_block e
           | Resolved status b \<Rightarrow>
               (case after_response status b of
                  Inl msg \<Rightarrow> catch_block msg
                | Inr _ \<Rightarrow>
                    [ToastSuccess (js ''Registration successful! Please check your email.''),
                     Navigate (js ''/thank-you'')]))) @
     [SetIsLoading False]"

subsection \<open>Dates\<close>

text \<open>
  A \<^verbatim>\<open>Date\<close> holds a time value: milliseconds since 1970-01-01T00:00:00Z. Its
  calendar fields are read in UTC by \<^verbatim>\<open>toISOString\<close> and in local time by
  \<^verbatim>\<open>getDate\<close>, \<^verbatim>\<open>getMonth\<close>, \<^verbatim>\<open>setMonth\<close> and \<^verbatim>\<open>setFullYear\<close>. The local time zone is
  a parameter \<open>tza\<close>, the offset of local time from UTC in milliseconds, taken as constant
  over the months at hand (a zone without daylight saving, such as India's).
\<close>

definition msPerDay :: int where
  "msPerDay = 86400000"

text \<open>Day number (days since 1970-01-01) of a proleptic Gregorian date, month 1 to 12.\<close>

definition days_from_civil :: "int \<Rightarrow> int \<Rightarrow> int \<Rightarrow> int" where
  "days_from_civil y m d =
     (let y' = (if m \<le> 2 then y - 1 else y);
          era = y' div 400;
          yoe = y' - era * 400;
          doy = (153 * (if m > 2 then m - 3 else m + 9) + 2) div 5 + d - 1;
          doe = yoe * 365 + yoe div 4 - yoe div 100 + doy
      in era * 146097 + doe - 719468)"

text \<open>The date (year, month 1 to 12, day of month) of a day number.\<close>

definition civil_from_days :: "int \<Rightarrow> int \<times> int \<times> int" where
  "civil_from_days z =
     (let z' = z + 719468;
          era = z' div 146097;
          doe = z' - era * 146097;
          yoe = (doe - doe div 1460 + doe div 36524 - doe div 146096) div 365;
          doy = doe - (365 * yoe + yoe div 4 - yoe div 100);
          mp = (5 * doy + 2) div 153;
          d = doy - (153 * mp + 2) div 5 + 1;
          m = (if mp < 10 then mp + 3 else mp - 9)
      in (if m \<le> 2 then yoe + era * 400 + 1 else yoe + era * 400, m, d))"

text \<open>
  \<^verbatim>\<open>MakeDay(year, month, date)\<close> of ECMAScript: \<open>month\<close> counts from 0 and may lie
  outside 0 to 11, \<open>date\<close> may lie outside the month.
\<close>

definition MakeDay :: "int \<Rightarrow> int \<Rightarrow> int \<Rightarrow> int" where
  "MakeDay y m dt = days_from_civil (y + m div 12) (m mod 12 + 1) 1 + dt - 1"

text \<open>A time value from a UTC date and time of day, for writing instants down.\<close>

definition utc_time :: "int \<Rightarrow> int \<Rightarrow> int \<Rightarrow> int \<Rightarrow> int \<Rightarrow> int" where
  "utc_time y m d hh mm = days_from_civil y m d * msPerDay + (hh * 60 + mm) * 60000"

fun digits :: "nat \<Rightarrow> nat \<Rightarrow> jsstring" where
  "digits 0 n = []"
| "digits (Suc w) n = digits w (n div 10) @ [0x30 + n mod 10]"

text \<open>
  \<^verbatim>\<open>date.toISOString().split('T')[0]\<close>: the UTC calendar date, the year on four digits
  from 0 to 9999 and signed on six digits otherwise.
\<close>

definition iso_date :: "int \<Rightarrow> jsstring" where
  "iso_date t =
     (case civil_from_days (t div msPerDay) of (y, m, d) \<Rightarrow>
        (if 0 \<le> y \<and> y \<le> 9999 then digits 4 (nat y)
         else (if y < 0 then js ''-'' else js ''+'') @ digits 6 (nat \<bar>y\<bar>))
        @ js ''-'' @ digits 2 (nat m) @ js ''-'' @ digits 2 (nat d))"

text \<open>
  Modelled from the spec: \<^verbatim>\<open>addMonths\<close> is imported from the package date-fns, which is
  not part of the repository. Section 4.2 of the specification describes it as
  calendar-correct month addition (Jan 31 + 1 month is the last valid day of February).
  The package computes on the local-time fields of the \<^verbatim>\<open>Date\<close> and keeps the local
  time of day: the day of month is \<^verbatim>\<open>getDate()\<close>, the end of the desired month is
  \<^verbatim>\<open>setMonth(getMonth() + amount + 1, 0)\<close>, and the result is that end when the day of
  month does not exist in the desired month, else
  \<^verbatim>\<open>setFullYear(year, month, dayOfMonth)\<close>.
\<close>

definition addMonths :: "int \<Rightarrow> int \<Rightarrow> int \<Rightarrow> int" where
  "addMonths tza date amount =
     (if amount = 0 then date
      else
        (let local = date + tza;
             time_of_day = local mod msPerDay
         in case civil_from_days (local div msPerDay) of (y, m, dayOfMonth) \<Rightarrow>
              (let endOfDesiredMonth = MakeDay y (m - 1 + amount + 1) 0
               in case civil_from_days endOfDesiredMonth of (ey, em, daysInMonth) \<Rightarrow>
                    (if dayOfMonth \<ge> daysInMonth
                     then endOfDesiredMonth * msPerDay + time_of_day - tza
                     else MakeDay ey (em - 1) dayOfMonth * msPerDay + time_of_day - tza))))"

text \<open>
  \<open>now\<close> is the value of \<^verbatim>\<open>new Date()\<close> when the handler runs.
\<close>

definition handlePlanSelect :: "int \<Rightarrow> int \<Rightarrow> form_state \<Rightarrow> PlanOption \<Rightarrow> form_state" where
  "handlePlanSelect tza now st plan_opt =
     (let startDate' = now;
          endDate' = addMonths tza startDate' (int (months plan_opt))
      in st\<lparr>selectedPlan := id_opt plan_opt,
             formData := (formData st)
               \<lparr>plan := id_opt plan_opt,
                startDate := iso_date startDate',
                endDate := iso_date endDate'\<rparr>\<rparr>)"

text \<open>
  The initial state of the component; \<open>now1\<close> and \<open>now2\<close> are the values of its two
  \<^verbatim>\<open>new Date()\<close>.
\<close>

definition initial_form_state :: "int \<Rightarrow> int \<Rightarrow> int \<Rightarrow> form_state" where
  "initial_form_state tza now1 now2 =
     \<lparr>formData =
        \<lparr>name = [], email = [], phone = [], dob = [], photo = None, plan = plan_1month,
         startDate = iso_date now1, endDate = iso_date (addMonths tza now2 1),
         paymentMethod = online\<rparr>,
      photoPreview = [], selectedPlan = plan_1month, isLoading = False\<rparr>"

section \<open>App: the session\<close>

text \<open>
  The session is the flag \<^verbatim>\<open>isAdminLoggedIn\<close> of \<^verbatim>\<open>App\<close> and the item \<^verbatim>\<open>token\<close> of
  \<^verbatim>\<open>localStorage\<close>. A string is truthy when it is not empty.
\<close>

record app =
  isAdminLoggedIn :: bool
  localStorage :: "jsstring option"

definition initial_app :: "jsstring option \<Rightarrow> app" where
  "initial_app stored = \<lparr>isAdminLoggedIn = False, localStorage = stored\<rparr>"

text \<open>The effect hook that runs once when \<^verbatim>\<open>App\<close> mounts: the request it sends, if any.\<close>

definition useEffect :: "app \<Rightarrow> effect list" where
  "useEffect a =
     (case localStorage a of
        None \<Rightarrow> []
      | Some tok \<Rightarrow> if tok \<noteq> [] then [Fetch (VerifyGet tok)] else [])"

text \<open>The \<^verbatim>\<open>then\<close> and \<^verbatim>\<open>catch\<close> callbacks of the verification request.\<close>

fun verify_settled :: "app \<Rightarrow> fetch_outcome \<Rightarrow> app \<times> effect list" where
  "verify_settled a (Resolved status b) =
     (if ok status then (a\<lparr>isAdminLoggedIn := True\<rparr>, [])
      else (a\<lparr>localStorage := None, isAdminLoggedIn := False\<rparr>,
            [ConsoleError (js ''Token verification failed:'')]))"
| "verify_settled a (Rejected e) =
     (a\<lparr>localStorage := None, isAdminLoggedIn := False\<rparr>,
      [ConsoleError (js ''Token verification error:'')])"


text \<open>
  The route table. \<open>location\<close> is the route the router matched; the catch-all route
  navigates to the root.
\<close>

datatype location = RootPath | ThankYouPath | AdminPath | OtherPath

datatype view = RegistrationFormView | ThankYouView | AdminPanelView | AdminLoginView

fun Routes :: "app \<Rightarrow> location \<Rightarrow> view" where
  "Routes a RootPath = RegistrationFormView"
| "Routes a ThankYouPath = ThankYouView"
| "Routes a AdminPath = (if isAdminLoggedIn a then AdminPanelView else AdminLoginView)"
| "Routes a OtherPath = RegistrationFormView"

text \<open>
  The state of \<^verbatim>\<open>App\<close> at \<open>t\<close> milliseconds after it mounted with \<open>stored\<close> in
  storage. \<open>net\<close> tells when the verification request settles and to what, \<open>None\<close>
  when it never does. The hook sets no timer: only the settling of the request runs a
  callback.
\<close>

definition bootstrap :: "jsstring option \<Rightarrow> (nat \<times> fetch_outcome) option \<Rightarrow> nat \<Rightarrow> app" where
  "bootstrap stored net t =
     (let a = initial_app stored
      in if useEffect a = [] then a
         else (case net of
                 None \<Rightarrow> a
               | Some (settles_at, outcome) \<Rightarrow>
                   if settles_at \<le> t then fst (verify_settled a outcome) else a))"

section \<open>AdminLogin.tsx\<close>

text \<open>
  What the login request settles to. \<open>BodyRejects e\<close> is a response on which
  \<^verbatim>\<open>response.json()\<close> rejects (a body that is not JSON, a connection lost while the body
  is read); \<open>BodyJson data\<close> is a response whose body parses to \<open>data\<close>.
\<close>

datatype login_body = BodyRejects jsstring | BodyJson json

datatype login_outcome = LoginResolved nat login_body | LoginRejected jsstring

text \<open>
  The login request carries the signal of an \<^verbatim>\<open>AbortController\<close> that a timer aborts
  after 10000 milliseconds; the timer is cleared when the request has resolved.
\<close>

datatype settled = Done login_outcome | AbortError

fun with_timeout :: "nat \<Rightarrow> (nat \<times> login_outcome) option \<Rightarrow> settled" where
  "with_timeout limit None = AbortError"
| "with_timeout limit (Some (settles_at, outcome)) =
     (if settles_at < limit then Done outcome else AbortError)"

text \<open>\<^verbatim>\<open>handleSubmit\<close> of the login form up to its first \<^verbatim>\<open>await\<close>.\<close>

definition handleSubmit_login_start :: "effect list" where
  "handleSubmit_login_start = [SetError (JString []), SetIsLoading True, Fetch LoginPost]"

text \<open>\<^verbatim>\<open>data.message || 'Invalid email or password'\<close>\<close>

fun errorMessage :: "json option \<Rightarrow> json" where
  "errorMessage None = JString (js ''Invalid email or password'')"
| "errorMessage (Some m) =
     (if ToBoolean (Some m) then m else JString (js ''Invalid email or password''))"

text \<open>
  The \<^verbatim>\<open>catch\<close> block for an error that is not the abort, and the \<^verbatim>\<open>finally\<close> block.
  The session is left as it was.
\<close>

definition login_failed :: "app \<Rightarrow> app \<times> effect list" where
  "login_failed a =
     (a, [ConsoleError (js ''Login error:''),
          SetError (JString (js ''Something went wrong. Please try again.'')),
          ToastError (js ''Login failed. Please try again.''),
          SetIsLoading False])"

text \<open>
  The rest of \<^verbatim>\<open>handleSubmit\<close>, run when the request has settled and the body has been
  read, on the state of \<^verbatim>\<open>App\<close> at that moment. \<^verbatim>\<open>onLogin\<close> is
  \<^verbatim>\<open>() => setIsAdminLoggedIn(true)\<close>. \<open>writable\<close> tells whether
  \<^verbatim>\<open>localStorage.setItem\<close> takes the write; when it does not, it throws. Each throw
  inside the \<^verbatim>\<open>try\<close> block (reading a property of \<^verbatim>\<open>null\<close>, a token that has no string,
  storage refusing) ends in the \<^verbatim>\<open>catch\<close> block, before \<^verbatim>\<open>onLogin\<close>.
\<close>

fun handleSubmit_login_resume :: "bool \<Rightarrow> app \<Rightarrow> settled \<Rightarrow> app \<times> effect list" where
  "handleSubmit_login_resume writable a AbortError =
     (a, [ConsoleError (js ''Login error:''),
          SetError (JString (js ''Request timed out. Please try again.'')),
          ToastError (js ''Request timed out. Please try again.''),
          SetIsLoading False])"
| "handleSubmit_login_resume writable a (Done (LoginRejected e)) = login_failed a"
| "handleSubmit_login_resume writable a (Done (LoginResolved status (BodyRejects e))) =
     login_failed a"
| "handleSubmit_login_resume writable a (Done (LoginResolved status (BodyJson data))) =
     (if ok status then
        (case Get data (js ''token'') of
           None \<Rightarrow> login_failed a
         | Some None \<Rightarrow>
             (a\<lparr>isAdminLoggedIn := True\<rparr>,
              [ToastSuccess (js ''Login successful!''), SetIsLoading False])
         | Some (Some v) \<Rightarrow>
             if ToBoolean (Some v) then
               (case ToString v of
                  None \<Rightarrow> login_failed a
                | Some stored \<Rightarrow>
                    if writable then
                      (a\<lparr>localStorage := Some stored, isAdminLoggedIn := True\<rparr>,
                       [ToastSuccess (js ''Login successful!''), SetIsLoading False])
                    else login_failed a)
             else
               (a\<lparr>isAdminLoggedIn := True\<rparr>,
                [ToastSuccess (js ''Login successful!''), SetIsLoading False]))
      else
        (case Get data (js ''message'') of
           None \<Rightarrow> login_failed a
         | Some m \<Rightarrow>
             (a, [SetError (errorMessage m), ToastErrorValue (errorMessage m),
                  SetIsLoading False])))"

definition handleSubmit_login ::
  "bool \<Rightarrow> app \<Rightarrow> (nat \<times> login_outcome) option \<Rightarrow> app \<times> effect list" where
  "handleSubmit_login writable a net =
     (case handleSubmit_login_resume writable a (with_timeout 10000 net) of
        (a', effs) \<Rightarrow> (a', handleSubmit_login_start @ effs))"

section \<open>The application as a transition system\<close>






section \<open>The registration form as a transition system\<close>

text \<open>
  The events of the form: a field edited, a file chosen, the file reader finished, a
  plan clicked (at the instant \<open>now\<close>), the form submitted (with what the request, if
  sent, settles to).
\<close>

datatype form_event =
    ChangeName jsstring
  | ChangeEmail jsstring
  | ChangePhone jsstring
  | ChangeDob jsstring
  | ChangePaymentMethod payment_method
  | PhotoChange "File option"
  | LoadEnd jsstring
  | PlanSelect PlanOption int
  | Submit fetch_outcome

fun form_step :: "int \<Rightarrow> form_state \<Rightarrow> form_event \<Rightarrow> form_state \<times> effect list" where
  "form_step tza st (ChangeName v) = (st\<lparr>formData := (formData st)\<lparr>name := v\<rparr>\<rparr>, [])"
| "form_step tza st (ChangeEmail v) = (st\<lparr>formData := (formData st)\<lparr>email := v\<rparr>\<rparr>, [])"
| "form_step tza st (ChangePhone v) = (st\<lparr>formData := (formData st)\<lparr>phone := v\<rparr>\<rparr>, [])"
| "form_step tza st (ChangeDob v) = (st\<lparr>formData := (formData st)\<lparr>dob := v\<rparr>\<rparr>, [])"
| "form_step tza st (ChangePaymentMethod v) =
     (st\<lparr>formData := (formData st)\<lparr>paymentMethod := v\<rparr>\<rparr>, [])"
| "form_step tza st (PhotoChange file) = handlePhotoChange st file"
| "form_step tza st (LoadEnd result) = (onloadend st result, [])"
| "form_step tza st (PlanSelect plan_opt now) = (handlePlanSelect tza now st plan_opt, [])"
| "form_step tza st (Submit net) = (st\<lparr>isLoading := False\<rparr>, handleSubmit (formData st) net)"

fun form_run :: "int \<Rightarrow> form_state \<Rightarrow> form_event list \<Rightarrow> form_state \<times> effect list" where
  "form_run tza st [] = (st, [])"
| "form_run tza st (e # es) =
     (case form_step tza st e of (st', effs) \<Rightarrow>
        (case form_run tza st' es of (st'', effs') \<Rightarrow> (st'', effs @ effs')))"

section \<open>Observations on effect lists\<close>

fun network_calls :: "effect list \<Rightarrow> request list" where
  "network_calls [] = []"
| "network_calls (Fetch r # effs) = r # network_calls effs"
| "network_calls (e # effs) = network_calls effs"

fun toast_errors :: "effect list \<Rightarrow> jsstring list" where
  "toast_errors [] = []"
| "toast_errors (ToastError m # effs) = m # toast_errors effs"
| "toast_errors (e # effs) = toast_errors effs"

fun file_reads :: "effect list \<Rightarrow> File list" where
  "file_reads [] = []"
| "file_reads (ReadAsDataURL f # effs) = f # file_reads effs"
| "file_reads (e # effs) = file_reads effs"

fun binary_parts :: "part list \<Rightarrow> File list" where
  "binary_parts [] = []"
| "binary_parts (Binary k f # ps) = f # binary_parts ps"
| "binary_parts (p # ps) = binary_parts ps"

fun text_parts :: "part list \<Rightarrow> (jsstring \<times> jsstring) list" where
  "text_parts [] = []"
| "text_parts (Text k v # ps) = (k, v) # text_parts ps"
| "text_parts (p # ps) = text_parts ps"

fun uploaded_files :: "request list \<Rightarrow> File list" where
  "uploaded_files [] = []"
| "uploaded_files (RegisterPost ps # rs) = binary_parts ps @ uploaded_files rs"
| "uploaded_files (r # rs) = uploaded_files rs"

section \<open>The statements of the specification\<close>

text \<open>
  The shape of an email address in the words of the specification: one or more
  characters that are neither whitespace nor \<^verbatim>\<open>@\<close>, then \<^verbatim>\<open>@\<close>, then one or more such
  characters, then \<^verbatim>\<open>.\<close>, then one or more such characters.
\<close>

definition plain :: "code_unit \<Rightarrow> bool" where
  "plain c \<longleftrightarrow> \<not> WhiteSpace c \<and> \<not> LineTerminator c \<and> c \<noteq> 0x40"

definition spec_email_shape :: "jsstring \<Rightarrow> bool" where
  "spec_email_shape s \<longleftrightarrow>
     (\<exists>a b c. s = a @ [0x40] @ b @ [0x2E] @ c \<and> a \<noteq> [] \<and> b \<noteq> [] \<and> c \<noteq> []
        \<and> list_all plain a \<and> list_all plain b \<and> list_all plain c)"

text \<open>Exactly ten ASCII digits.\<close>

definition spec_phone_shape :: "jsstring \<Rightarrow> bool" where
  "spec_phone_shape s \<longleftrightarrow> length s = 10 \<and> list_all (\<lambda>c. 0x30 \<le> c \<and> c \<le> 0x39) s"






text \<open>A draft that passes both validators, for the examples.\<close>

definition example_draft :: FormData where
  "example_draft =
     \<lparr>name = js ''Asha'', email = js ''a@b.co'', phone = js ''9876543210'',
      dob = js ''1990-05-17'', photo = None, plan = plan_1month,
      startDate = js ''2024-01-31'', endDate = js ''2024-02-29'',
      paymentMethod = online\<rparr>"

text \<open>The photo held by the draft, if any, is at most 1 MiB.\<close>

definition photo_within_limit :: "form_state \<Rightarrow> bool" where
  "photo_within_limit st \<longleftrightarrow>
     (case photo (formData st) of None \<Rightarrow> True | Some g \<Rightarrow> file_size g \<le> 1048576)"

section \<open>The validators\<close>

lemma test_Once:
  "test ((cs, Once) # r) s \<longleftrightarrow> (\<exists>c b. s = c # b \<and> in_charset cs c \<and> test r b)"
  by (cases s) auto

lemma test_OneOrMore:
  "test ((cs, OneOrMore) # r) s \<longleftrightarrow>
     (\<exists>a b. s = a @ b \<and> a \<noteq> [] \<and> list_all (in_charset cs) a \<and> test r b)"
proof (induction s)
  case Nil
  then show ?case by simp
next
  case (Cons c s)
  show ?case
  proof
    assume "test ((cs, OneOrMore) # r) (c # s)"
    then have c: "in_charset cs c" and d: "test ((cs, OneOrMore) # r) s \<or> test r s"
      by simp_all
    from d show "\<exists>a b. c # s = a @ b \<and> a \<noteq> [] \<and> list_all (in_charset cs) a \<and> test r b"
    proof
      assume "test ((cs, OneOrMore) # r) s"
      with Cons.IH obtain a b where "s = a @ b" "list_all (in_charset cs) a" "test r b"
        by blast
      with c have "c # s = (c # a) @ b \<and> c # a \<noteq> [] \<and> list_all (in_charset cs) (c # a) \<and> test r b"
        by simp
      then show ?thesis by blast
    next
      assume "test r s"
      with c have "c # s = [c] @ s \<and> [c] \<noteq> [] \<and> list_all (in_charset cs) [c] \<and> test r s"
        by simp
      then show ?thesis by blast
    qed
  next
    assume "\<exists>a b. c # s = a @ b \<and> a \<noteq> [] \<and> list_all (in_charset cs) a \<and> test r b"
    then obtain a b where ab: "c # s = a @ b" "a \<noteq> []" "list_all (in_charset cs) a" "test r b"
      by blast
    then obtain a' where a: "a = c # a'" "s = a' @ b"
      by (cases a) auto
    show "test ((cs, OneOrMore) # r) (c # s)"
    proof (cases "a' = []")
      case True
      with a ab show ?thesis by simp
    next
      case False
      with a ab have "test ((cs, OneOrMore) # r) s"
        using Cons.IH by auto
      with a ab show ?thesis by simp
    qed
  qed
qed

lemma test_Exactly:
  "test ((cs, Exactly n) # r) s \<longleftrightarrow>
     n \<le> length s \<and> list_all (in_charset cs) (take n s) \<and> test r (drop n s)"
proof (induction n arbitrary: s)
  case 0
  then show ?case by simp
next
  case (Suc n)
  then show ?case by (cases s) auto
qed

lemma in_charset_plain: "in_charset NotSpaceNorAt = plain"
  by (rule ext) (simp add: plain_def)

lemma emailRegex_shape: "test emailRegex s \<longleftrightarrow> spec_email_shape s"
  unfolding emailRegex_def spec_email_shape_def
  by (simp add: test_OneOrMore test_Once in_charset_plain) blast

lemma in_charset_Digit: "in_charset Digit = (\<lambda>c. 0x30 \<le> c \<and> c \<le> 0x39)"
  by (rule ext) simp

lemma phoneRegex_shape: "test phoneRegex s \<longleftrightarrow> spec_phone_shape s"
  unfolding phoneRegex_def spec_phone_shape_def
  by (auto simp: test_Exactly in_charset_Digit)

lemma email_needs_at: "test emailRegex s \<Longrightarrow> 0x40 \<in> set s"
  by (auto simp: emailRegex_shape spec_email_shape_def)

lemma email_needs_dot_after_at:
  assumes "test emailRegex s"
  shows "0x2E \<in> set (dropWhile (\<lambda>c. c \<noteq> 0x40) s)"
proof -
  from assms obtain a b c where s: "s = a @ [0x40] @ b @ [0x2E] @ c" and a: "list_all plain a"
    by (auto simp: emailRegex_shape spec_email_shape_def)
  from a have "\<forall>x\<in>set a. x \<noteq> 0x40"
    by (auto simp: list_all_iff plain_def)
  then have "dropWhile (\<lambda>c. c \<noteq> 0x40) s = [0x40] @ b @ [0x2E] @ c"
    unfolding s by (simp add: dropWhile_append)
  then show ?thesis by simp
qed

lemma email_accepts_example: "test emailRegex (js ''a@b.co'')"
  by (simp add: emailRegex_def js_def WhiteSpace_def LineTerminator_def)

lemma invalid_email_msg: "includes_js (js ''Please enter a valid email address'') (js ''email'')"
  by (simp add: js_def)

lemma invalid_phone_msg: "includes_js (js ''Please enter a valid 10-digit phone number'') (js ''phone'')"
  by (simp add: js_def)

lemma handleSubmit_invalid:
  "validate fd = Inl msg \<Longrightarrow>
   handleSubmit fd net = [SetIsLoading True] @ catch_block msg @ [SetIsLoading False]"
  by (simp add: handleSubmit_def)

lemma network_calls_invalid:
  "validate fd = Inl msg \<Longrightarrow> network_calls (handleSubmit fd net) = []"
  by (simp add: handleSubmit_invalid catch_block_def)


lemma validate_cases:
  "validate fd = Inr () \<longleftrightarrow> test emailRegex (email fd) \<and> test phoneRegex (phone fd)"
  by (simp add: validate_def)

lemma toast_invalid_email:
  "\<not> test emailRegex (email fd) \<Longrightarrow>
   toast_errors (handleSubmit fd net) = [js ''Please enter a valid email address'']"
  by (simp add: handleSubmit_def validate_def catch_block_def invalid_email_msg)

lemma invalid_phone_msg_no_email:
  "\<not> includes_js (js ''Please enter a valid 10-digit phone number'') (js ''email'')"
  by (simp add: js_def)

lemma toast_invalid_phone:
  "test emailRegex (email fd) \<Longrightarrow> \<not> test phoneRegex (phone fd) \<Longrightarrow>
   toast_errors (handleSubmit fd net) = [js ''Please enter a valid 10-digit phone number'']"
  by (simp add: handleSubmit_def validate_def catch_block_def invalid_phone_msg)

lemma network_calls_invalid_email:
  "\<not> test emailRegex (email fd) \<Longrightarrow> network_calls (handleSubmit fd net) = []"
  by (rule network_calls_invalid [of fd "js ''Please enter a valid email address''"])
     (simp add: validate_def)

lemma network_calls_invalid_phone:
  "\<not> test phoneRegex (phone fd) \<Longrightarrow> network_calls (handleSubmit fd net) = []"
proof (cases "test emailRegex (email fd)")
  case True
  assume "\<not> test phoneRegex (phone fd)"
  with True have "validate fd = Inl (js ''Please enter a valid 10-digit phone number'')"
    by (simp add: validate_def)
  then show ?thesis by (rule network_calls_invalid)
next
  case False
  then show ?thesis by (rule network_calls_invalid_email)
qed

text \<open>
  Claim C8. The email validator accepts exactly the strings made of one or more
  characters that are neither whitespace nor \<^verbatim>\<open>@\<close>, an \<^verbatim>\<open>@\<close>, one or more such
  characters, a \<^verbatim>\<open>.\<close>, and one or more such characters. It rejects every string
  without an \<^verbatim>\<open>@\<close> and every string without a \<^verbatim>\<open>.\<close> after the \<^verbatim>\<open>@\<close>, and accepts
  \<^verbatim>\<open>a@b.co\<close>. When it rejects the email of the draft, the submission sends no request
  and shows the message for an invalid email.
\<close>

theorem email_validator:
  "(test emailRegex s \<longleftrightarrow> spec_email_shape s)
   \<and> (0x40 \<notin> set s \<longrightarrow> \<not> test emailRegex s)
   \<and> (0x2E \<notin> set (dropWhile (\<lambda>c. c \<noteq> 0x40) s) \<longrightarrow> \<not> test emailRegex s)
   \<and> test emailRegex (js ''a@b.co'')
   \<and> (\<not> test emailRegex (email fd) \<longrightarrow>
        network_calls (handleSubmit fd net) = []
        \<and> toast_errors (handleSubmit fd net) = [js ''Please enter a valid email address''])"
  using emailRegex_shape [of s] email_needs_at [of s] email_needs_dot_after_at [of s]
    email_accepts_example network_calls_invalid_email [of fd net] toast_invalid_email [of fd net]
  by blast

theorem email_validator_witness:
  "\<not> spec_email_shape (js ''ab.co'')
   \<and> \<not> spec_email_shape (js ''a@bco'')
   \<and> network_calls (handleSubmit (example_draft\<lparr>email := js ''ab.co''\<rparr>)
        (Resolved 200 (Json None None))) = []
   \<and> toast_errors (handleSubmit (example_draft\<lparr>email := js ''ab.co''\<rparr>)
        (Resolved 200 (Json None None))) = [js ''Please enter a valid email address'']"
proof -
  have a: "0x40 \<notin> set (js ''ab.co'')"
    by (simp add: js_def)
  have b: "0x2E \<notin> set (dropWhile (\<lambda>c. c \<noteq> 0x40) (js ''a@bco''))"
    by (simp add: js_def)
  have c: "\<not> test emailRegex (js ''ab.co'')"
    using a email_validator [of "js ''ab.co''"] by blast
  then have d: "\<not> test emailRegex (email (example_draft\<lparr>email := js ''ab.co''\<rparr>))"
    by simp
  have e: "\<not> spec_email_shape (js ''a@bco'')"
    using b email_validator [of "js ''a@bco''"] by blast
  show ?thesis
    using c d e email_validator [of "js ''ab.co''" "example_draft\<lparr>email := js ''ab.co''\<rparr>"
        "Resolved 200 (Json None None)"]
    by blast
qed

text \<open>
  Claim C9. The phone validator accepts exactly the strings of exactly ten ASCII digits:
  a string of another length, or with a character that is not a digit, is rejected. When
  it rejects the phone of the draft, the submission sends no request.
\<close>

theorem phone_validator:
  "(test phoneRegex s \<longleftrightarrow> spec_phone_shape s)
   \<and> (length s \<noteq> 10 \<longrightarrow> \<not> test phoneRegex s)
   \<and> ((\<exists>c \<in> set s. \<not> (0x30 \<le> c \<and> c \<le> 0x39)) \<longrightarrow> \<not> test phoneRegex s)
   \<and> (\<not> test phoneRegex (phone fd) \<longrightarrow> network_calls (handleSubmit fd net) = [])
   \<and> (test emailRegex (email fd) \<and> \<not> test phoneRegex (phone fd) \<longrightarrow>
        toast_errors (handleSubmit fd net) = [js ''Please enter a valid 10-digit phone number''])"
  using phoneRegex_shape [of s] network_calls_invalid_phone [of fd net]
    toast_invalid_phone [of fd net]
  by (auto simp: spec_phone_shape_def list_all_iff)

theorem phone_validator_witness:
  "test phoneRegex (js ''9876543210'')
   \<and> \<not> test phoneRegex (js ''98765 3210'')
   \<and> network_calls (handleSubmit (example_draft\<lparr>phone := js ''987654321''\<rparr>)
        (Resolved 200 (Json None None))) = []"
proof -
  have a: "spec_phone_shape (js ''9876543210'')"
    by (simp add: spec_phone_shape_def js_def)
  have b: "\<exists>c \<in> set (js ''98765 3210''). \<not> (0x30 \<le> c \<and> c \<le> 0x39)"
    by (simp add: js_def)
  have c: "length (phone (example_draft\<lparr>phone := js ''987654321''\<rparr>)) \<noteq> 10"
    by (simp add: js_def)
  show ?thesis
    using a b c phone_validator [of "js ''9876543210''"]
      phone_validator [of "js ''98765 3210''"]
      phone_validator [of "phone (example_draft\<lparr>phone := js ''987654321''\<rparr>)"
        "example_draft\<lparr>phone := js ''987654321''\<rparr>" "Resolved 200 (Json None None)"]
    by blast
qed

section \<open>Submission: the answer of the server\<close>

lemma duplicate_email_msg:
  "includes_js (js ''This email is already registered. Please use a different email or try logging in.'') (js ''email'')"
  by (simp add: js_def)

lemma duplicate_phone_msg:
  "includes_js (js ''This phone number is already registered. Please use a different phone number.'') (js ''phone'')"
  by (simp add: js_def)

lemma default_msg_plain:
  "\<not> includes_js (js ''Registration failed. Please try again.'') (js ''email'')"
  "\<not> includes_js (js ''Registration failed. Please try again.'') (js ''phone'')"
  by (simp_all add: js_def)

lemma email_lit_nonempty: "js ''email'' \<noteq> []" "js ''phone'' \<noteq> []"
  by (simp_all add: js_def)

lemma toast_errors_catch_block:
  "toast_errors (catch_block msg) =
     [if includes_js msg (js ''email'') \<or> includes_js msg (js ''phone'') then msg
      else js ''Registration failed. Please check your information and try again.'']"
  by (simp add: catch_block_def)

lemma handleSubmit_valid_response:
  "validate fd = Inr () \<Longrightarrow>
   handleSubmit fd (Resolved status b) =
     [SetIsLoading True, Fetch (RegisterPost (formDataToSend fd))] @
     (case after_response status b of
        Inl msg \<Rightarrow> catch_block msg
      | Inr _ \<Rightarrow> [ToastSuccess (js ''Registration successful! Please check your email.''),
                  Navigate (js ''/thank-you'')]) @
     [SetIsLoading False]"
  by (simp add: handleSubmit_def)

lemma after_response_message:
  "\<not> ok status \<Longrightarrow>
   after_response status (Json (Some msg) tok) =
     Inl (if status = 400 \<and> includes_js msg (js ''email'') then
            js ''This email is already registered. Please use a different email or try logging in.''
          else if status = 400 \<and> includes_js msg (js ''phone'') then
            js ''This phone number is already registered. Please use a different phone number.''
          else if msg = [] then js ''Registration failed. Please try again.''
          else msg)"
  by simp

lemma thrown_toast:
  assumes "\<not> ok status"
  shows "toast_errors (case after_response status (Json (Some msg) tok) of
            Inl m \<Rightarrow> catch_block m
          | Inr _ \<Rightarrow> [ToastSuccess (js ''Registration successful! Please check your email.''),
                  Navigate (js ''/thank-you'')]) =
     [if status = 400 \<and> includes_js msg (js ''email'') then
        js ''This email is already registered. Please use a different email or try logging in.''
      else if status = 400 \<and> includes_js msg (js ''phone'') then
        js ''This phone number is already registered. Please use a different phone number.''
      else if includes_js msg (js ''email'') \<or> includes_js msg (js ''phone'') then msg
      else js ''Registration failed. Please check your information and try again.'']"
proof -
  have e: "msg = [] \<Longrightarrow> \<not> includes_js msg (js ''email'') \<and> \<not> includes_js msg (js ''phone'')"
    using email_lit_nonempty by simp
  show ?thesis
    unfolding after_response_message [OF assms] sum.case toast_errors_catch_block
    using e duplicate_email_msg duplicate_phone_msg default_msg_plain
    by (simp del: includes_js.simps)
qed

lemma toast_errors_append: "toast_errors (xs @ ys) = toast_errors xs @ toast_errors ys"
  by (induction xs rule: toast_errors.induct) simp_all

lemma network_calls_append: "network_calls (xs @ ys) = network_calls xs @ network_calls ys"
  by (induction xs rule: network_calls.induct) simp_all

lemma example_draft_valid: "validate example_draft = Inr ()"
proof -
  have "test emailRegex (email example_draft)"
    by (simp add: example_draft_def email_accepts_example)
  moreover have "spec_phone_shape (phone example_draft)"
    by (simp add: example_draft_def spec_phone_shape_def js_def)
  ultimately show ?thesis
    by (simp add: validate_cases phoneRegex_shape)
qed

text \<open>
  Claim C1, as amended. A valid draft is submitted and the server answers with a status
  outside 200 to 299 and a JSON body with a message. If the status is 400 and the message
  contains \<^verbatim>\<open>email\<close>, the user is shown the duplicate-email text. If the status is 400
  and the message contains \<^verbatim>\<open>phone\<close> but not \<^verbatim>\<open>email\<close>, the user is shown the
  duplicate-phone text. For any other status, a message that contains \<^verbatim>\<open>email\<close> or
  \<^verbatim>\<open>phone\<close> is shown verbatim. A message that contains neither is replaced by the fixed
  text "Registration failed. Please check your information and try again."
\<close>

theorem registration_error_mapping:
  assumes "validate fd = Inr ()" and "\<not> ok status"
  shows "toast_errors (handleSubmit fd (Resolved status (Json (Some msg) tok))) =
     [if status = 400 \<and> includes_js msg (js ''email'') then
        js ''This email is already registered. Please use a different email or try logging in.''
      else if status = 400 \<and> includes_js msg (js ''phone'') then
        js ''This phone number is already registered. Please use a different phone number.''
      else if includes_js msg (js ''email'') \<or> includes_js msg (js ''phone'') then msg
      else js ''Registration failed. Please check your information and try again.'']"
  unfolding handleSubmit_valid_response [OF assms(1)] toast_errors_append
    thrown_toast [OF assms(2)]
  by simp

theorem registration_error_mapping_witness:
  "toast_errors (handleSubmit example_draft
       (Resolved 400 (Json (Some (js ''email already exists'')) None))) =
     [js ''This email is already registered. Please use a different email or try logging in.'']"
proof -
  have "\<not> ok 400"
    by (simp add: ok_def)
  moreover have "includes_js (js ''email already exists'') (js ''email'')"
    by (simp add: js_def)
  ultimately show ?thesis
    using registration_error_mapping [OF example_draft_valid, of 400 "js ''email already exists''" None]
    by (simp del: includes_js.simps)
qed

text \<open>
  The claim as first stated fails: a status 500 with a message that mentions neither
  \<^verbatim>\<open>email\<close> nor \<^verbatim>\<open>phone\<close> is not shown verbatim.
\<close>

theorem registration_error_mapping_counterexample:
  "\<not> ok 500
   \<and> \<not> includes_js (js ''Internal Server Error'') (js ''email'')
   \<and> \<not> includes_js (js ''Internal Server Error'') (js ''phone'')
   \<and> toast_errors (handleSubmit example_draft
         (Resolved 500 (Json (Some (js ''Internal Server Error'')) None)))
       = [js ''Registration failed. Please check your information and try again.'']
   \<and> js ''Registration failed. Please check your information and try again.''
       \<noteq> js ''Internal Server Error''"
proof -
  have a: "\<not> ok 500"
    by (simp add: ok_def)
  have b: "\<not> includes_js (js ''Internal Server Error'') (js ''email'')"
    by (simp add: js_def)
  have c: "\<not> includes_js (js ''Internal Server Error'') (js ''phone'')"
    by (simp add: js_def)
  have d: "js ''Registration failed. Please check your information and try again.''
       \<noteq> js ''Internal Server Error''"
    by (simp add: js_def)
  have "toast_errors (handleSubmit example_draft
         (Resolved 500 (Json (Some (js ''Internal Server Error'')) None)))
       = [js ''Registration failed. Please check your information and try again.'']"
    unfolding handleSubmit_valid_response [OF example_draft_valid] toast_errors_append
      thrown_toast [OF a]
    using b c by (simp del: includes_js.simps)
  with a b c d show ?thesis by blast
qed

section \<open>Submission: the multipart body\<close>

lemma formDataToSend_with_photo:
  "formDataToSend (fd\<lparr>photo := Some f\<rparr>) =
     [Text (js ''name'') (name fd), Text (js ''email'') (email fd),
      Text (js ''phone'') (phone fd), Text (js ''dob'') (dob fd),
      Binary (js ''photo'') f,
      Text (js ''plan'') (plan_string (plan fd)), Text (js ''startDate'') (startDate fd),
      Text (js ''endDate'') (endDate fd),
      Text (js ''paymentMethod'') (payment_string (paymentMethod fd))]"
  by (simp add: formDataToSend_def entries_def)

lemma text_fields_with_photo:
  "map fst (text_parts (formDataToSend (fd\<lparr>photo := Some f\<rparr>))) =
     [js ''name'', js ''email'', js ''phone'', js ''dob'', js ''plan'', js ''startDate'',
      js ''endDate'', js ''paymentMethod'']"
  by (simp add: formDataToSend_with_photo)

text \<open>
  Claim C6. The request body is one multipart body: each field of the draft a text
  part, the photo a binary part named \<^verbatim>\<open>photo\<close> and only when there is one. The code
  does so when the draft holds a photo (\<open>formDataToSend_with_photo\<close>,
  \<open>text_fields_with_photo\<close>). Without a photo it
  still appends a part named \<^verbatim>\<open>photo\<close>, a text part of value \<^verbatim>\<open>null\<close>, so the text
  parts are nine and not the eight of the claim.
\<close>

theorem formDataToSend_without_photo:
  "formDataToSend (fd\<lparr>photo := None\<rparr>) =
     [Text (js ''name'') (name fd), Text (js ''email'') (email fd),
      Text (js ''phone'') (phone fd), Text (js ''dob'') (dob fd),
      Text (js ''photo'') (js ''null''),
      Text (js ''plan'') (plan_string (plan fd)), Text (js ''startDate'') (startDate fd),
      Text (js ''endDate'') (endDate fd),
      Text (js ''paymentMethod'') (payment_string (paymentMethod fd))]"
  by (simp add: formDataToSend_def entries_def)

lemma binary_parts_formDataToSend:
  "binary_parts (formDataToSend fd) = (case photo fd of None \<Rightarrow> [] | Some f \<Rightarrow> [f])"
  by (cases "photo fd") (simp_all add: formDataToSend_def entries_def)

lemma network_calls_handleSubmit:
  "network_calls (handleSubmit fd net) =
     (if validate fd = Inr () then [RegisterPost (formDataToSend fd)] else [])"
proof (cases "validate fd")
  case (Inl msg)
  then show ?thesis by (simp add: network_calls_invalid)
next
  case (Inr u)
  have c: "network_calls (case r of Inl msg \<Rightarrow> catch_block msg
             | Inr _ \<Rightarrow> [ToastSuccess a, Navigate b]) = []" for r :: "jsstring + unit" and a b
    by (cases r) (simp_all add: catch_block_def)
  from Inr show ?thesis
    by (cases net) (simp_all add: handleSubmit_def network_calls_append c catch_block_def)
qed

section \<open>The photo\<close>

lemma handlePhotoChange_oversized:
  "file_size f > 1048576 \<Longrightarrow>
   handlePhotoChange st (Some f) = (st, [ToastError (js ''Photo size should be less than 1MB'')])"
  by simp

lemma handlePhotoChange_accepted:
  "file_size f \<le> 1048576 \<Longrightarrow>
   handlePhotoChange st (Some f) =
     (st\<lparr>formData := (formData st)\<lparr>photo := Some f\<rparr>\<rparr>, [ReadAsDataURL f])"
  by simp

lemma handlePhotoChange_keeps_limit:
  "photo_within_limit st \<Longrightarrow> photo_within_limit (fst (handlePhotoChange st chosen))"
  by (cases chosen) (auto simp: photo_within_limit_def)

lemma handlePhotoChange_no_network: "network_calls (snd (handlePhotoChange st chosen)) = []"
  by (cases chosen) auto

lemma form_step_keeps_limit:
  "photo_within_limit st \<Longrightarrow> photo_within_limit (fst (form_step tza st e))"
proof (cases e)
  case (PhotoChange chosen)
  assume "photo_within_limit st"
  then show ?thesis
    unfolding PhotoChange form_step.simps by (rule handlePhotoChange_keeps_limit)
qed (simp_all add: photo_within_limit_def onloadend_def handlePlanSelect_def Let_def)

lemma form_step_uploads:
  assumes "photo_within_limit st"
  shows "\<forall>g \<in> set (uploaded_files (network_calls (snd (form_step tza st e)))). file_size g \<le> 1048576"
proof (cases e)
  case (PhotoChange chosen)
  then show ?thesis by (simp add: handlePhotoChange_no_network)
next
  case (Submit net)
  from assms show ?thesis
    unfolding Submit
    by (cases "photo (formData st)")
       (simp_all add: network_calls_handleSubmit binary_parts_formDataToSend photo_within_limit_def)
qed simp_all

lemma uploaded_files_append: "uploaded_files (xs @ ys) = uploaded_files xs @ uploaded_files ys"
  by (induction xs rule: uploaded_files.induct) simp_all

lemma form_run_uploads:
  "photo_within_limit st \<Longrightarrow>
   \<forall>g \<in> set (uploaded_files (network_calls (snd (form_run tza st evs)))). file_size g \<le> 1048576"
proof (induction evs arbitrary: st)
  case Nil
  then show ?case by simp
next
  case (Cons e evs)
  obtain st' effs where s: "form_step tza st e = (st', effs)"
    by (cases "form_step tza st e")
  obtain st'' effs' where r: "form_run tza st' evs = (st'', effs')"
    by (cases "form_run tza st' evs")
  from Cons.prems s have "photo_within_limit st'"
    using form_step_keeps_limit [of st tza e] by simp
  then have "\<forall>g \<in> set (uploaded_files (network_calls effs')). file_size g \<le> 1048576"
    using Cons.IH [of st'] r by simp
  moreover have "\<forall>g \<in> set (uploaded_files (network_calls effs)). file_size g \<le> 1048576"
    using form_step_uploads [OF Cons.prems, of tza e] s by simp
  ultimately show ?case
    using s r by (auto simp: network_calls_append uploaded_files_append)
qed

lemma initial_within_limit: "photo_within_limit (initial_form_state tza now1 now2)"
  by (simp add: photo_within_limit_def initial_form_state_def)

text \<open>
  Claim C7. A photo of more than 1,048,576 bytes is rejected when it is chosen, with the
  message "Photo size should be less than 1MB" and without a request; a photo of at most
  1,048,576 bytes passes the size check and becomes the photo of the draft. Hence no
  request the form ever sends carries a photo of more than 1,048,576 bytes.
\<close>

theorem photo_size_limit:
  "(file_size f > 1048576 \<longrightarrow>
      toast_errors (snd (handlePhotoChange st (Some f))) = [js ''Photo size should be less than 1MB'']
      \<and> network_calls (snd (handlePhotoChange st (Some f))) = []
      \<and> photo (formData (fst (handlePhotoChange st (Some f)))) = photo (formData st))
   \<and> (file_size f \<le> 1048576 \<longrightarrow>
      toast_errors (snd (handlePhotoChange st (Some f))) = []
      \<and> photo (formData (fst (handlePhotoChange st (Some f)))) = Some f)
   \<and> (\<forall>g \<in> set (uploaded_files (network_calls
            (snd (form_run tza (initial_form_state tza now1 now2) evs)))).
        file_size g \<le> 1048576)"
  using form_run_uploads [OF initial_within_limit, of tza tza now1 now2 evs]
  by simp

theorem photo_size_limit_witness:
  "toast_errors (snd (handlePhotoChange (initial_form_state 0 0 0)
       (Some \<lparr>file_name = js ''big.png'', file_size = 2097152, file_type = js ''image/png''\<rparr>)))
     = [js ''Photo size should be less than 1MB'']
   \<and> photo (formData (fst (handlePhotoChange (initial_form_state 0 0 0)
       (Some \<lparr>file_name = js ''ok.png'', file_size = 1048576, file_type = js ''image/png''\<rparr>))))
     = Some \<lparr>file_name = js ''ok.png'', file_size = 1048576, file_type = js ''image/png''\<rparr>
   \<and> uploaded_files (network_calls (snd (form_run 0 (initial_form_state 0 0 0)
       [PhotoChange (Some \<lparr>file_name = js ''big.png'', file_size = 2097152, file_type = js ''image/png''\<rparr>),
        ChangeEmail (js ''a@b.co''), ChangePhone (js ''9876543210''),
        Submit (Resolved 201 (Json None None))]))) = []"
proof -
  let ?big = "\<lparr>file_name = js ''big.png'', file_size = 2097152, file_type = js ''image/png''\<rparr>"
  let ?ok = "\<lparr>file_name = js ''ok.png'', file_size = 1048576, file_type = js ''image/png''\<rparr>"
  let ?evs = "[PhotoChange (Some ?big), ChangeEmail (js ''a@b.co''),
     ChangePhone (js ''9876543210''), Submit (Resolved 201 (Json None None))]"
  have big: "file_size ?big > 1048576" and ok: "file_size ?ok \<le> 1048576"
    by simp_all
  have a: "toast_errors (snd (handlePhotoChange (initial_form_state 0 0 0) (Some ?big)))
      = [js ''Photo size should be less than 1MB'']"
    using big photo_size_limit [of ?big "initial_form_state 0 0 0" 0 0 0 "[]"] by blast
  have b: "photo (formData (fst (handlePhotoChange (initial_form_state 0 0 0) (Some ?ok)))) = Some ?ok"
    using ok photo_size_limit [of ?ok "initial_form_state 0 0 0" 0 0 0 "[]"] by blast
  have "\<forall>g \<in> set (uploaded_files (network_calls (snd (form_run 0 (initial_form_state 0 0 0) ?evs)))).
      file_size g \<le> 1048576"
    using photo_size_limit [of ?big "initial_form_state 0 0 0" 0 0 0 ?evs] by blast
  moreover have "set (uploaded_files (network_calls (snd (form_run 0 (initial_form_state 0 0 0) ?evs))))
      \<subseteq> {}"
    by (simp add: network_calls_handleSubmit binary_parts_formDataToSend initial_form_state_def)
  ultimately show ?thesis
    using a b by simp
qed

text \<open>
  Claim C10. Choosing a photo of more than 1,048,576 bytes leaves the state of the form
  as it was: the draft with its photo field and the photo preview keep their values, and
  no file read is started.
\<close>

theorem oversized_photo_frame:
  "file_size f > 1048576 \<Longrightarrow>
   fst (form_step tza st (PhotoChange (Some f))) = st
   \<and> formData (fst (handlePhotoChange st (Some f))) = formData st
   \<and> photoPreview (fst (handlePhotoChange st (Some f))) = photoPreview st
   \<and> file_reads (snd (handlePhotoChange st (Some f))) = []"
  by simp

theorem oversized_photo_frame_witness:
  "fst (form_step 0 (initial_form_state 0 0 0)
      (PhotoChange (Some \<lparr>file_name = js ''big.png'', file_size = 1048577, file_type = js ''image/png''\<rparr>)))
     = initial_form_state 0 0 0
   \<and> file_reads (snd (handlePhotoChange (initial_form_state 0 0 0)
      (Some \<lparr>file_name = js ''big.png'', file_size = 1048577, file_type = js ''image/png''\<rparr>))) = []"
proof -
  let ?big = "\<lparr>file_name = js ''big.png'', file_size = 1048577, file_type = js ''image/png''\<rparr>"
  have "file_size ?big > 1048576"
    by simp
  then show ?thesis
    using oversized_photo_frame [of ?big 0 "initial_form_state 0 0 0"] by blast
qed

section \<open>The membership window\<close>

lemma calendar_examples:
  "days_from_civil 1970 1 1 = 0"
  "civil_from_days 0 = (1970, 1, 1)"
  "civil_from_days (days_from_civil 2024 2 29) = (2024, 2, 29)"
  "days_from_civil 2024 3 1 - days_from_civil 2024 2 28 = 2"
  "days_from_civil 1900 3 1 - days_from_civil 1900 2 28 = 1"
  "days_from_civil 2000 3 1 - days_from_civil 2000 2 28 = 2"
  "civil_from_days (MakeDay 2024 2 0) = (2024, 2, 29)"
  "civil_from_days (MakeDay 2023 13 31) = (2024, 3, 2)"
  by code_simp+

lemma first_plan: "id_opt (hd plans) = plan_1month" "months (hd plans) = 1"
  by (simp_all add: plans_def)

lemma handlePlanSelect_dates:
  "startDate (formData (handlePlanSelect tza now st p)) = iso_date now"
  "endDate (formData (handlePlanSelect tza now st p)) = iso_date (addMonths tza now (int (months p)))"
  by (simp_all add: handlePlanSelect_def Let_def)

lemma initial_dates:
  "startDate (formData (initial_form_state tza now1 now2)) = iso_date now1"
  "endDate (formData (initial_form_state tza now1 now2)) = iso_date (addMonths tza now2 1)"
  by (simp_all add: initial_form_state_def)

lemma window_utc_example:
  "iso_date (utc_time 2024 1 31 12 0) = js ''2024-01-31''"
  "iso_date (addMonths 0 (utc_time 2024 1 31 12 0) 1) = js ''2024-02-29''"
  by code_simp+

lemma window_india:
  "civil_from_days ((utc_time 2024 1 30 20 30 + 330 * 60000) div msPerDay) = (2024, 1, 31)"
  "iso_date (utc_time 2024 1 30 20 30) = js ''2024-01-30''"
  "iso_date (addMonths (330 * 60000) (utc_time 2024 1 30 20 30) 1) = js ''2024-02-28''"
  by code_simp+

lemma window_pacific:
  "civil_from_days ((utc_time 2024 2 1 4 0 + - 480 * 60000) div msPerDay) = (2024, 1, 31)"
  "iso_date (utc_time 2024 2 1 4 0) = js ''2024-02-01''"
  "iso_date (addMonths (- 480 * 60000) (utc_time 2024 2 1 4 0) 1) = js ''2024-03-01''"
  by code_simp+

text \<open>
  Claim C2. The window of a plan starts on the reference date and ends on that date
  moved by the plan's months on the calendar; from 2024-01-31 and one month it ends on
  2024-02-29. The code does so when local time is UTC (\<open>window_utc_example\<close>). In
  another zone it does not, since the months are added on the local calendar while both
  dates are printed in UTC. At 02:00 on 2024-01-31 in India (UTC+05:30) the one-month
  plan gets the window 2024-01-30 to 2024-02-28, when the form opens and when the plan
  is selected; at 20:00 on 2024-01-31 at UTC-08:00 it gets 2024-02-01 to 2024-03-01.
\<close>

theorem handlePlanSelect_window_off_utc:
  "startDate (formData (handlePlanSelect (330 * 60000) (utc_time 2024 1 30 20 30) st (hd plans)))
     = js ''2024-01-30''
   \<and> endDate (formData (handlePlanSelect (330 * 60000) (utc_time 2024 1 30 20 30) st (hd plans)))
     = js ''2024-02-28''
   \<and> startDate (formData (handlePlanSelect (- 480 * 60000) (utc_time 2024 2 1 4 0) st (hd plans)))
     = js ''2024-02-01''
   \<and> endDate (formData (handlePlanSelect (- 480 * 60000) (utc_time 2024 2 1 4 0) st (hd plans)))
     = js ''2024-03-01''
   \<and> startDate (formData (initial_form_state (330 * 60000) (utc_time 2024 1 30 20 30)
         (utc_time 2024 1 30 20 30))) = js ''2024-01-30''
   \<and> endDate (formData (initial_form_state (330 * 60000) (utc_time 2024 1 30 20 30)
         (utc_time 2024 1 30 20 30))) = js ''2024-02-28''"
  unfolding handlePlanSelect_dates initial_dates first_plan
  using window_india window_pacific by simp

section \<open>The session\<close>

lemma token_lit: "js ''stale-token'' \<noteq> []"
  by (simp add: js_def)

lemma useEffect_stored:
  "tok \<noteq> [] \<Longrightarrow> useEffect (initial_app (Some tok)) = [Fetch (VerifyGet tok)]"
  by (simp add: useEffect_def initial_app_def)

lemma bootstrap_failure_clears:
  assumes "tok \<noteq> []" and "settles_at \<le> t"
    and "outcome = Rejected e \<or> (\<exists>status b. outcome = Resolved status b \<and> \<not> ok status)"
  shows "bootstrap (Some tok) (Some (settles_at, outcome)) t =
     \<lparr>isAdminLoggedIn = False, localStorage = None\<rparr>"
  using assms by (auto simp: bootstrap_def useEffect_def initial_app_def Let_def)

lemma bootstrap_pending:
  "tok \<noteq> [] \<Longrightarrow> bootstrap (Some tok) None t = \<lparr>isAdminLoggedIn = False, localStorage = Some tok\<rparr>"
  by (simp add: bootstrap_def useEffect_def initial_app_def Let_def)

lemma bootstrap_not_yet:
  "tok \<noteq> [] \<Longrightarrow> t < settles_at \<Longrightarrow>
   bootstrap (Some tok) (Some (settles_at, outcome)) t =
     \<lparr>isAdminLoggedIn = False, localStorage = Some tok\<rparr>"
  by (simp add: bootstrap_def useEffect_def initial_app_def Let_def)

lemma login_times_out:
  "handleSubmit_login writable a None =
     (a, [SetError (JString []), SetIsLoading True, Fetch LoginPost,
          ConsoleError (js ''Login error:''),
          SetError (JString (js ''Request timed out. Please try again.'')),
          ToastError (js ''Request timed out. Please try again.''),
          SetIsLoading False])"
  by (simp add: handleSubmit_login_def handleSubmit_login_start_def)

text \<open>
  Claim C3. The verification request of the bootstrap has a bounded timeout of about ten
  seconds, after which the stored token is cleared as on any other failure. The code
  clears the token when the request fails (\<open>bootstrap_failure_clears\<close>), and the login
  request is aborted after 10000 milliseconds (\<open>login_times_out\<close>); the verification
  request has no timer. While it has not settled, and for ever when it never settles, the
  token stays in storage.
\<close>

theorem bootstrap_without_timeout:
  "useEffect (initial_app (Some (js ''stale-token''))) = [Fetch (VerifyGet (js ''stale-token''))]
   \<and> bootstrap (Some (js ''stale-token'')) None t =
       \<lparr>isAdminLoggedIn = False, localStorage = Some (js ''stale-token'')\<rparr>
   \<and> bootstrap (Some (js ''stale-token'')) (Some (60000, Rejected (js ''Failed to fetch''))) 10000 =
       \<lparr>isAdminLoggedIn = False, localStorage = Some (js ''stale-token'')\<rparr>"
  using useEffect_stored [OF token_lit] bootstrap_pending [OF token_lit, of t]
    bootstrap_not_yet [OF token_lit, of 10000 60000 "Rejected (js ''Failed to fetch'')"]
  by simp

section \<open>Login\<close>

lemma Get_None: "Get data key = None \<longleftrightarrow> data = JNull"
  by (cases data) simp_all

lemma network_calls_login_resume:
  "network_calls (snd (handleSubmit_login_resume writable a r)) = []"
  by (cases "(writable, a, r)" rule: handleSubmit_login_resume.cases)
     (simp_all add: login_failed_def split: option.splits)

lemma network_calls_login:
  "network_calls (snd (handleSubmit_login writable a net)) = [LoginPost]"
proof -
  obtain a' effs where r: "handleSubmit_login_resume writable a (with_timeout 10000 net) = (a', effs)"
    by (cases "handleSubmit_login_resume writable a (with_timeout 10000 net)")
  with network_calls_login_resume [of writable a "with_timeout 10000 net"]
  have "network_calls effs = []" by simp
  with r show ?thesis
    by (simp add: handleSubmit_login_def handleSubmit_login_start_def network_calls_append)
qed

lemma login_in_time:
  "settles_at < 10000 \<Longrightarrow>
   fst (handleSubmit_login writable a (Some (settles_at, outcome))) =
     fst (handleSubmit_login_resume writable a (Done outcome))"
  by (simp add: handleSubmit_login_def split: prod.splits)

text \<open>
  Claim C4, as amended. The login request is answered in time with a status from 200 to
  299 and a body that parses as JSON. When the body is \<^verbatim>\<open>null\<close> the login fails and the
  session is left as it was. Otherwise the token of the body decides. A token that is
  absent or falsy (\<^verbatim>\<open>null\<close>, \<^verbatim>\<open>false\<close>, zero, the empty string) is not stored, and the
  session becomes authenticated. A truthy token is stored as its string, a string token
  as it is, and the session becomes authenticated; when the token has no string or
  storage refuses the write, the login fails and the session is left as it was. Where
  the session becomes authenticated it does so at once: the admin route renders the admin
  panel. In every case the handler sends no request but the login itself.
\<close>

theorem login_success:
  assumes "ok status" and "settles_at < 10000"
  shows
    "(data = JNull \<longrightarrow>
        fst (handleSubmit_login writable a
          (Some (settles_at, LoginResolved status (BodyJson data)))) = a)
     \<and> (Get data (js ''token'') = Some None
          \<or> (\<exists>v. Get data (js ''token'') = Some (Some v) \<and> \<not> ToBoolean (Some v)) \<longrightarrow>
        fst (handleSubmit_login writable a
          (Some (settles_at, LoginResolved status (BodyJson data))))
          = a\<lparr>isAdminLoggedIn := True\<rparr>
        \<and> Routes (fst (handleSubmit_login writable a
          (Some (settles_at, LoginResolved status (BodyJson data))))) AdminPath = AdminPanelView)
     \<and> (\<forall>v stored. Get data (js ''token'') = Some (Some v) \<and> ToBoolean (Some v)
          \<and> ToString v = Some stored \<and> writable \<longrightarrow>
        fst (handleSubmit_login writable a
          (Some (settles_at, LoginResolved status (BodyJson data))))
          = a\<lparr>localStorage := Some stored, isAdminLoggedIn := True\<rparr>
        \<and> Routes (fst (handleSubmit_login writable a
          (Some (settles_at, LoginResolved status (BodyJson data))))) AdminPath = AdminPanelView)
     \<and> (\<forall>t. Get data (js ''token'') = Some (Some (JString t)) \<and> t \<noteq> [] \<and> writable \<longrightarrow>
        localStorage (fst (handleSubmit_login writable a
          (Some (settles_at, LoginResolved status (BodyJson data))))) = Some t
        \<and> isAdminLoggedIn (fst (handleSubmit_login writable a
          (Some (settles_at, LoginResolved status (BodyJson data))))))
     \<and> (\<forall>v. Get data (js ''token'') = Some (Some v) \<and> ToBoolean (Some v)
          \<and> (ToString v = None \<or> \<not> writable) \<longrightarrow>
        fst (handleSubmit_login writable a
          (Some (settles_at, LoginResolved status (BodyJson data)))) = a)
     \<and> network_calls (snd (handleSubmit_login writable a
          (Some (settles_at, LoginResolved status (BodyJson data))))) = [LoginPost]"
  unfolding login_in_time [OF assms(2)] network_calls_login
  using assms(1)
  by (auto simp: login_failed_def Get_None split: option.splits)


theorem login_success_witness:
  "localStorage (fst (handleSubmit_login True (initial_app None)
       (Some (150, LoginResolved 200
          (BodyJson (JObject [(js ''token'', JString (js ''abc.def.ghi''))]))))))
     = Some (js ''abc.def.ghi'')
   \<and> fst (handleSubmit_login True (initial_app None)
       (Some (150, LoginResolved 200
          (BodyJson (JObject [(js ''token'', JNumber False (js ''12345''))])))))
     = (initial_app None)\<lparr>localStorage := Some (js ''12345''), isAdminLoggedIn := True\<rparr>
   \<and> fst (handleSubmit_login True (initial_app None)
       (Some (150, LoginResolved 200 (BodyJson JNull)))) = initial_app None
   \<and> fst (handleSubmit_login False (initial_app None)
       (Some (150, LoginResolved 200
          (BodyJson (JObject [(js ''token'', JString (js ''abc.def.ghi''))])))))
     = initial_app None"
proof -
  let ?s = "JObject [(js ''token'', JString (js ''abc.def.ghi''))]"
  let ?n = "JObject [(js ''token'', JNumber False (js ''12345''))]"
  have h: "ok 200" "(150::nat) < 10000"
    by (simp_all add: ok_def)
  have s: "Get ?s (js ''token'') = Some (Some (JString (js ''abc.def.ghi'')))"
    "js ''abc.def.ghi'' \<noteq> []" "ToBoolean (Some (JString (js ''abc.def.ghi'')))"
    by (simp_all add: js_def)
  have n: "Get ?n (js ''token'') = Some (Some (JNumber False (js ''12345'')))"
    "ToBoolean (Some (JNumber False (js ''12345'')))"
    "ToString (JNumber False (js ''12345'')) = Some (js ''12345'')"
    by simp_all
  have "localStorage (fst (handleSubmit_login True (initial_app None)
       (Some (150, LoginResolved 200 (BodyJson ?s))))) = Some (js ''abc.def.ghi'')"
    using s login_success [OF h, of ?s True "initial_app None"] by blast
  moreover have "fst (handleSubmit_login True (initial_app None)
       (Some (150, LoginResolved 200 (BodyJson ?n))))
     = (initial_app None)\<lparr>localStorage := Some (js ''12345''), isAdminLoggedIn := True\<rparr>"
    using n login_success [OF h, of ?n True "initial_app None"] by blast
  moreover have "fst (handleSubmit_login True (initial_app None)
       (Some (150, LoginResolved 200 (BodyJson JNull)))) = initial_app None"
    using login_success [OF h, of JNull True "initial_app None"] by blast
  moreover have "fst (handleSubmit_login False (initial_app None)
       (Some (150, LoginResolved 200 (BodyJson ?s)))) = initial_app None"
    using s login_success [OF h, of ?s False "initial_app None"] by blast
  ultimately show ?thesis by blast
qed

text \<open>
  The claim as first stated fails: a 2xx answer whose token is the empty string
  authenticates the session and stores nothing, and a 2xx answer whose body is \<^verbatim>\<open>null\<close>
  does not authenticate it.
\<close>

theorem login_success_counterexample:
  "ok 200
   \<and> isAdminLoggedIn (fst (handleSubmit_login True (initial_app None)
        (Some (150, LoginResolved 200 (BodyJson (JObject [(js ''token'', JString [])]))))))
   \<and> localStorage (fst (handleSubmit_login True (initial_app None)
        (Some (150, LoginResolved 200 (BodyJson (JObject [(js ''token'', JString [])])))))) = None
   \<and> \<not> isAdminLoggedIn (fst (handleSubmit_login True (initial_app None)
        (Some (150, LoginResolved 200 (BodyJson JNull)))))"
  by (simp add: ok_def handleSubmit_login_def initial_app_def login_failed_def js_def)

section \<open>The session invariant\<close>










end
